theory Spec2Isabelle
  imports Complex_Main
begin

section \<open>Trading metrics dashboard: numbers, cells and the data frame\<close>

text \<open>
  The program is one Python script, \<^verbatim>\<open>dashboard_metricas.py\<close>, that reads a sheet of closed
  trades into a pandas data frame and derives returns, a calibration curve, summary
  statistics, an equity curve with its drawdown, slippage gaps, process adherence and a
  list of alerts.

  Numbers. A float64 that the script handles is either finite or NaN: spreadsheet cells
  hold finite numbers or are blank, and blank cells are read as NaN. Finite values are
  modelled as reals, so rounding and overflow are not part of the model; NaN is explicit.
  Infinities can then arise in one place only, the element-wise division of the drawdown,
  whose result has its own type \<open>ieee\<close>.
\<close>

datatype fl = Fin real | NaN

datatype ieee = Finite real | NotANumber | PlusInf | MinusInf

datatype error = ZeroDivisionError | KeyError "string list" | TypeError | IndexError

fun fl_add :: "fl \<Rightarrow> fl \<Rightarrow> fl" where
  "fl_add (Fin a) (Fin b) = Fin (a + b)"
| "fl_add _ _ = NaN"

fun fl_sub :: "fl \<Rightarrow> fl \<Rightarrow> fl" where
  "fl_sub (Fin a) (Fin b) = Fin (a - b)"
| "fl_sub _ _ = NaN"

fun fl_mul :: "fl \<Rightarrow> fl \<Rightarrow> fl" where
  "fl_mul (Fin a) (Fin b) = Fin (a * b)"
| "fl_mul _ _ = NaN"

text \<open>Comparisons with NaN are false, whichever way they are written.\<close>

fun fl_gt :: "fl \<Rightarrow> real \<Rightarrow> bool" where
  "fl_gt (Fin a) c = (a > c)"
| "fl_gt NaN c = False"

fun fl_le :: "fl \<Rightarrow> real \<Rightarrow> bool" where
  "fl_le (Fin a) c = (a \<le> c)"
| "fl_le NaN c = False"

fun fl_lt :: "fl \<Rightarrow> real \<Rightarrow> bool" where
  "fl_lt (Fin a) c = (a < c)"
| "fl_lt NaN c = False"

fun fl_abs :: "fl \<Rightarrow> fl" where
  "fl_abs (Fin a) = Fin \<bar>a\<bar>"
| "fl_abs NaN = NaN"

text \<open>
  Division comes in two kinds. \<^verbatim>\<open>calcular_retorno\<close> is applied row by row
  (\<^verbatim>\<open>df.apply(..., axis=1)\<close>); the frame mixes dates, text and numbers, so each row is
  an object series whose entries are plain Python numbers, and Python's \<^verbatim>\<open>/\<close> raises
  \<^verbatim>\<open>ZeroDivisionError\<close> on a zero divisor, whatever the dividend (NaN included).
\<close>

fun py_div :: "fl \<Rightarrow> fl \<Rightarrow> error + fl" where
  "py_div x (Fin b) = (if b = 0 then Inl ZeroDivisionError
                       else (case x of Fin a \<Rightarrow> Inr (Fin (a / b)) | NaN \<Rightarrow> Inr NaN))"
| "py_div x NaN = Inr NaN"

text \<open>
  The drawdown divides two pandas series, which is numpy's element-wise division: a zero
  divisor gives an infinity with the sign of the dividend, or NaN for \<open>0 / 0\<close>, and nothing
  is raised.
\<close>

fun np_div :: "fl \<Rightarrow> fl \<Rightarrow> ieee" where
  "np_div (Fin a) (Fin b) =
     (if b = 0 then (if a = 0 then NotANumber else if a > 0 then PlusInf else MinusInf)
      else Finite (a / b))"
| "np_div _ _ = NotANumber"

text \<open>
  Cells of the optional columns, as pandas reads them: blank, a number, a boolean, or
  text that is not a number.
\<close>

datatype celda = Vacio | Num real | Booleano bool | Texto string

text \<open>
  One row of the sheet. \<open>lado\<close> is the cell already passed through \<^verbatim>\<open>str\<close>;
  \<open>fecha_salida\<close> is a time stamp, \<open>None\<close> for a blank date (NaT); the prices and the
  slippage cells are numbers or blank; the assigned probability is taken to be a number;
  \<open>control c\<close> is the cell of the process-control column \<open>c\<close>. The fields of optional
  columns are read only when the frame lists the column among its \<open>columnas\<close>, the names
  of the optional columns that the sheet has.
\<close>

record fila =
  fecha_salida :: "nat option"
  lado :: string
  precio_entrada :: fl
  precio_salida :: fl
  probabilidad_asignada :: real
  tamanio :: celda
  slippage_estimado_pct :: fl
  slippage_real_pct :: fl
  control :: "string \<Rightarrow> celda"

record dataframe =
  columnas :: "string list"
  filas :: "fila list"

section \<open>Return and result of each trade\<close>

text \<open>\<^verbatim>\<open>str.lower\<close> on the letters A to Z; other characters are left as they are.\<close>

definition lower_char :: "char \<Rightarrow> char" where
  "lower_char c =
     (case map_of (zip ''ABCDEFGHIJKLMNOPQRSTUVWXYZ'' ''abcdefghijklmnopqrstuvwxyz'') c of
        Some d \<Rightarrow> d | None \<Rightarrow> c)"

definition lower :: "string \<Rightarrow> string" where
  "lower s = map lower_char s"

definition calcular_retorno :: "fila \<Rightarrow> error + fl" where
  "calcular_retorno f =
     (if lower (lado f) = ''largo''
      then py_div (fl_sub (precio_salida f) (precio_entrada f)) (precio_entrada f)
      else py_div (fl_sub (precio_entrada f) (precio_salida f)) (precio_entrada f))"

text \<open>\<^verbatim>\<open>df.apply\<close> calls the function on the rows in order; the first exception ends it.\<close>

fun apply_filas :: "(fila \<Rightarrow> error + fl) \<Rightarrow> fila list \<Rightarrow> error + fl list" where
  "apply_filas g [] = Inr []"
| "apply_filas g (f # fs) =
     (case g f of Inl e \<Rightarrow> Inl e
      | Inr r \<Rightarrow> (case apply_filas g fs of Inl e \<Rightarrow> Inl e | Inr rs \<Rightarrow> Inr (r # rs)))"

definition retorno_realizado :: "dataframe \<Rightarrow> error + fl list" where
  "retorno_realizado df = apply_filas calcular_retorno (filas df)"

definition resultado :: "fl list \<Rightarrow> bool list" where
  "resultado retornos = map (\<lambda>r. fl_gt r 0) retornos"

section \<open>Calibration curve\<close>

text \<open>\<^verbatim>\<open>Series.clip(0, 1)\<close>, \<^verbatim>\<open>np.linspace\<close> and the bin centres.\<close>

definition clip :: "real \<Rightarrow> real \<Rightarrow> real \<Rightarrow> real" where
  "clip lo hi x = min hi (max lo x)"

definition linspace :: "real \<Rightarrow> real \<Rightarrow> nat \<Rightarrow> real list" where
  "linspace a b n = map (\<lambda>k. a + real k * ((b - a) / real (n - 1))) [0..<n]"

definition bins :: "real list" where
  "bins = linspace 0 1 6"

definition centros :: "real list" where
  "centros = map2 (\<lambda>a b. (a + b) / 2) (butlast bins) (tl bins)"

text \<open>
  \<^verbatim>\<open>scipy.stats.binned_statistic(x, values, "mean", bins=edges)\<close>. Each sample gets a
  bin number from \<^verbatim>\<open>np.digitize\<close>: the position of the first edge that is greater than
  the sample, so bin \<open>k\<close> holds \<open>edges[k-1] \<le> x < edges[k]\<close>. A sample on the last edge
  is moved one bin to the left. The result lists bins \<open>1\<close> to \<open>len(edges) - 1\<close>; the mean
  of a bin without samples is NaN.
\<close>

fun digitize :: "real list \<Rightarrow> real \<Rightarrow> nat" where
  "digitize [] x = 0"
| "digitize (e # es) x = (if x < e then 0 else Suc (digitize es x))"

definition binnumber :: "real list \<Rightarrow> real \<Rightarrow> nat" where
  "binnumber edges x =
     (let k = digitize edges x in if x \<ge> last edges \<and> x = last edges then k - 1 else k)"

definition media :: "real list \<Rightarrow> fl" where
  "media xs = (if xs = [] then NaN else Fin (sum_list xs / real (length xs)))"

definition binned_statistic_mean :: "real list \<Rightarrow> real list \<Rightarrow> real list \<Rightarrow> fl list" where
  "binned_statistic_mean xs vs edges =
     map (\<lambda>k. media (map snd (filter (\<lambda>(x, v). binnumber edges x = k) (zip xs vs))))
       [1..<length edges]"

definition datos_probs :: "dataframe \<Rightarrow> real list" where
  "datos_probs df = map (\<lambda>f. clip 0 1 (probabilidad_asignada f)) (filas df)"

definition frecuencia_real :: "dataframe \<Rightarrow> fl list \<Rightarrow> fl list" where
  "frecuencia_real df retornos =
     binned_statistic_mean (datos_probs df) (map of_bool (resultado retornos)) bins"

section \<open>Equity curve\<close>

text \<open>
  \<^verbatim>\<open>pd.to_numeric(..., errors="coerce")\<close> turns what is not a number into NaN, and
  \<^verbatim>\<open>fillna(1)\<close> replaces NaN by 1. When the sheet has no column \<^verbatim>\<open>tamanio\<close>,
  \<^verbatim>\<open>df.get\<close> supplies a column of ones.
\<close>

fun to_numeric :: "celda \<Rightarrow> fl" where
  "to_numeric (Num r) = Fin r"
| "to_numeric (Booleano b) = Fin (of_bool b)"
| "to_numeric (Texto s) = NaN"
| "to_numeric Vacio = NaN"

fun fillna :: "real \<Rightarrow> fl \<Rightarrow> fl" where
  "fillna d NaN = Fin d"
| "fillna d (Fin r) = Fin r"

definition df_get_tamanio :: "dataframe \<Rightarrow> celda list" where
  "df_get_tamanio df =
     (if ''tamanio'' \<in> set (columnas df) then map tamanio (filas df)
      else map (\<lambda>f. Num 1) (filas df))"

definition tamanios :: "dataframe \<Rightarrow> fl list" where
  "tamanios df = map (\<lambda>c. fillna 1 (to_numeric c)) (df_get_tamanio df)"

text \<open>\<^verbatim>\<open>Series.cumsum\<close> and \<^verbatim>\<open>Series.cummax\<close> skip NaN: the entry stays NaN and the
  running value goes on unchanged.\<close>

fun cumsum_desde :: "real \<Rightarrow> fl list \<Rightarrow> fl list" where
  "cumsum_desde acc [] = []"
| "cumsum_desde acc (Fin x # xs) = Fin (acc + x) # cumsum_desde (acc + x) xs"
| "cumsum_desde acc (NaN # xs) = NaN # cumsum_desde acc xs"

definition cumsum :: "fl list \<Rightarrow> fl list" where
  "cumsum xs = cumsum_desde 0 xs"

fun cummax_desde :: "real option \<Rightarrow> fl list \<Rightarrow> fl list" where
  "cummax_desde acc [] = []"
| "cummax_desde acc (Fin x # xs) =
     (let m = (case acc of None \<Rightarrow> x | Some a \<Rightarrow> max a x) in Fin m # cummax_desde (Some m) xs)"
| "cummax_desde acc (NaN # xs) = NaN # cummax_desde acc xs"

definition cummax :: "fl list \<Rightarrow> fl list" where
  "cummax xs = cummax_desde None xs"

text \<open>\<^verbatim>\<open>Series.sort_values()\<close> on the exit dates: ascending, blank dates last.\<close>

definition sort_values :: "nat option list \<Rightarrow> nat option list" where
  "sort_values ts = map Some (sort (List.map_filter id ts)) @ filter (\<lambda>t. t = None) ts"

text \<open>
  \<^verbatim>\<open>pd.Series((retornos * tamanios).cumsum().values, index=df["fecha_salida"].sort_values())\<close>:
  the values are the running sums in the order of the rows of the sheet, the index is the
  sorted exit dates. A series is modelled as the list of its (index, value) pairs.
\<close>

definition serie_equity :: "dataframe \<Rightarrow> fl list \<Rightarrow> (nat option \<times> fl) list" where
  "serie_equity df retornos =
     zip (sort_values (map fecha_salida (filas df)))
         (cumsum (map2 fl_mul retornos (tamanios df)))"

definition peak :: "(nat option \<times> fl) list \<Rightarrow> (nat option \<times> fl) list" where
  "peak serie = zip (map fst serie) (cummax (map snd serie))"

definition dd :: "(nat option \<times> fl) list \<Rightarrow> (nat option \<times> ieee) list" where
  "dd serie =
     zip (map fst serie)
         (map2 np_div (map2 fl_sub (map snd serie) (map snd (peak serie))) (map snd (peak serie)))"

section \<open>Summary of performance\<close>

text \<open>\<^verbatim>\<open>Series.mean()\<close> skips NaN; the mean of no values is NaN.\<close>

fun notna :: "fl \<Rightarrow> bool" where
  "notna (Fin a) = True"
| "notna NaN = False"

fun valor :: "fl \<Rightarrow> real" where
  "valor (Fin a) = a"
| "valor NaN = 0"

definition mean :: "fl list \<Rightarrow> fl" where
  "mean xs = media (map valor (filter notna xs))"

definition tasa_exito :: "bool list \<Rightarrow> fl" where
  "tasa_exito res = media (map of_bool res)"

definition gan_media :: "fl list \<Rightarrow> fl" where
  "gan_media retornos = mean (filter (\<lambda>r. fl_gt r 0) retornos)"

definition per_media :: "fl list \<Rightarrow> fl" where
  "per_media retornos = mean (filter (\<lambda>r. fl_le r 0) retornos)"

definition expectativa :: "fl list \<Rightarrow> fl" where
  "expectativa retornos =
     fl_add (fl_mul (tasa_exito (resultado retornos)) (gan_media retornos))
            (fl_mul (fl_sub (Fin 1) (tasa_exito (resultado retornos))) (per_media retornos))"

section \<open>Adherence to the process\<close>

definition reglas :: "string list" where
  "reglas = [''regla_riesgo_ok'', ''regla_salida_ok'', ''tesis_documentada'', ''proceso_seguido'']"

definition cols_bool :: "dataframe \<Rightarrow> string list" where
  "cols_bool df = filter (\<lambda>c. c \<in> set (columnas df)) reglas"

text \<open>
  \<^verbatim>\<open>df[c].mean()\<close> on a control column: blank cells are skipped, a boolean counts as 1
  or 0, a number counts as itself, and text makes the sum fail with \<^verbatim>\<open>TypeError\<close>.
\<close>

fun valores_celdas :: "celda list \<Rightarrow> error + real list" where
  "valores_celdas [] = Inr []"
| "valores_celdas (Texto s # cs) = Inl TypeError"
| "valores_celdas (Vacio # cs) = valores_celdas cs"
| "valores_celdas (Num r # cs) =
     (case valores_celdas cs of Inl e \<Rightarrow> Inl e | Inr vs \<Rightarrow> Inr (r # vs))"
| "valores_celdas (Booleano b # cs) =
     (case valores_celdas cs of Inl e \<Rightarrow> Inl e | Inr vs \<Rightarrow> Inr (of_bool b # vs))"

definition mean_celdas :: "celda list \<Rightarrow> error + fl" where
  "mean_celdas cs = (case valores_celdas cs of Inl e \<Rightarrow> Inl e | Inr vs \<Rightarrow> Inr (media vs))"

fun adher_cols :: "dataframe \<Rightarrow> string list \<Rightarrow> error + (string \<times> fl) list" where
  "adher_cols df [] = Inr []"
| "adher_cols df (c # cs) =
     (case mean_celdas (map (\<lambda>f. control f c) (filas df)) of
        Inl e \<Rightarrow> Inl e
      | Inr m \<Rightarrow> (case adher_cols df cs of Inl e \<Rightarrow> Inl e | Inr rest \<Rightarrow> Inr ((c, m) # rest)))"

definition adher :: "dataframe \<Rightarrow> error + (string \<times> fl) list" where
  "adher df = adher_cols df (cols_bool df)"

section \<open>Slippage above the estimate\<close>

text \<open>
  \<^verbatim>\<open>df.dropna(subset=[...])\<close> raises \<^verbatim>\<open>KeyError\<close> with the labels of the subset that
  are not columns of the frame; otherwise it keeps, in order, the rows where both cells
  are present.
\<close>

definition slip_df :: "dataframe \<Rightarrow> error + fila list" where
  "slip_df df =
     (let subset = [''slippage_estimado_pct'', ''slippage_real_pct''];
          faltan = filter (\<lambda>c. c \<notin> set (columnas df)) subset
      in if faltan \<noteq> [] then Inl (KeyError faltan)
         else Inr (filter (\<lambda>f. notna (slippage_estimado_pct f) \<and> notna (slippage_real_pct f))
                     (filas df)))"

definition slip_vals :: "dataframe \<Rightarrow> error + fl list" where
  "slip_vals df =
     (case slip_df df of Inl e \<Rightarrow> Inl e
      | Inr fs \<Rightarrow> Inr (map (\<lambda>f. fl_sub (slippage_real_pct f) (slippage_estimado_pct f)) fs))"

section \<open>Alerts\<close>

datatype alerta = Desviacion | AdherenciaBaja string fl | ExpectativaNegativa

datatype aviso = Warning alerta | Success

text \<open>
  The list \<open>alerts\<close> is built by appending, rule after rule; the loop over the items of
  the adherence dictionary is a fold in the order of its keys. \<^verbatim>\<open>frecuencia_real[2]\<close>
  raises \<^verbatim>\<open>IndexError\<close> on an array of fewer than three entries.
\<close>

definition alerts :: "fl list \<Rightarrow> (string \<times> fl) list \<Rightarrow> fl \<Rightarrow> error + alerta list" where
  "alerts frecuencia adherencia expect =
     (if length centros \<ge> 3 \<and> \<not> 2 < length frecuencia then Inl IndexError
      else
        let a0 = [];
            a1 = (if length centros \<ge> 3 \<and>
                     fl_gt (fl_abs (fl_sub (frecuencia ! 2) (Fin (centros ! 2)))) 0.15
                  then a0 @ [Desviacion] else a0);
            a2 = foldl (\<lambda>acc (regla, cumplimiento).
                          if fl_lt cumplimiento 0.7
                          then acc @ [AdherenciaBaja regla cumplimiento] else acc) a1 adherencia;
            a3 = (if fl_lt expect 0 then a2 @ [ExpectativaNegativa] else a2)
        in Inr a3)"

definition mostrar :: "alerta list \<Rightarrow> aviso list" where
  "mostrar als = (if als \<noteq> [] then map Warning als else [Success])"

section \<open>The whole run\<close>

text \<open>
  The stages in the order of the script; an exception in one stage ends the run. Drawing
  the charts and tables is left out.
\<close>

record salida =
  s_retornos :: "fl list"
  s_frecuencia_real :: "fl list"
  s_serie_equity :: "(nat option \<times> fl) list"
  s_tasa_exito :: fl
  s_gan_media :: fl
  s_per_media :: fl
  s_expectativa :: fl
  s_adher :: "(string \<times> fl) list"
  s_slip_vals :: "fl list"
  s_dd :: "(nat option \<times> ieee) list"
  s_avisos :: "aviso list"

definition dashboard :: "dataframe \<Rightarrow> error + salida" where
  "dashboard df =
     (case retorno_realizado df of Inl e \<Rightarrow> Inl e | Inr retornos \<Rightarrow>
      (case adher df of Inl e \<Rightarrow> Inl e | Inr ad \<Rightarrow>
       (case slip_vals df of Inl e \<Rightarrow> Inl e | Inr sv \<Rightarrow>
        (case alerts (frecuencia_real df retornos) ad (expectativa retornos) of
           Inl e \<Rightarrow> Inl e
         | Inr als \<Rightarrow>
             Inr \<lparr> s_retornos = retornos,
                   s_frecuencia_real = frecuencia_real df retornos,
                   s_serie_equity = serie_equity df retornos,
                   s_tasa_exito = tasa_exito (resultado retornos),
                   s_gan_media = gan_media retornos,
                   s_per_media = per_media retornos,
                   s_expectativa = expectativa retornos,
                   s_adher = ad,
                   s_slip_vals = sv,
                   s_dd = dd (serie_equity df retornos),
                   s_avisos = mostrar als \<rparr>))))"

section \<open>Notions used to state the properties\<close>





fun es_texto :: "celda \<Rightarrow> bool" where
  "es_texto (Texto s) = True"
| "es_texto _ = False"

fun numero :: "celda \<Rightarrow> real" where
  "numero (Num r) = r"
| "numero (Booleano b) = of_bool b"
| "numero _ = 0"

text \<open>The compliance of a column when only its boolean cells are counted.\<close>

fun booleanos :: "celda list \<Rightarrow> real list" where
  "booleanos [] = []"
| "booleanos (Booleano b # cs) = of_bool b # booleanos cs"
| "booleanos (_ # cs) = booleanos cs"




text \<open>
  Sample sheets. \<open>operacion t l e s p\<close> is a row with exit date \<open>t\<close>, side \<open>l\<close>, entry
  price \<open>e\<close>, exit price \<open>s\<close> and assigned probability \<open>p\<close>, every optional cell blank.
\<close>

definition operacion :: "nat \<Rightarrow> string \<Rightarrow> real \<Rightarrow> real \<Rightarrow> real \<Rightarrow> fila" where
  "operacion t l e s p =
     \<lparr> fecha_salida = Some t, lado = l, precio_entrada = Fin e, precio_salida = Fin s,
       probabilidad_asignada = p, tamanio = Vacio,
       slippage_estimado_pct = NaN, slippage_real_pct = NaN, control = (\<lambda>c. Vacio) \<rparr>"

definition columnas_slippage :: "string list" where
  "columnas_slippage = [''slippage_estimado_pct'', ''slippage_real_pct'']"

text \<open>Two trades listed in the sheet with the later exit first.\<close>

definition hoja_desordenada :: dataframe where
  "hoja_desordenada =
     \<lparr> columnas = columnas_slippage,
       filas = [operacion 2 ''largo'' 100 110 (1 / 2), operacion 1 ''largo'' 100 95 (1 / 2)] \<rparr>"



text \<open>A trade entered at price zero, after a regular one.\<close>

definition hoja_entrada_cero :: dataframe where
  "hoja_entrada_cero =
     \<lparr> columnas = columnas_slippage,
       filas = [operacion 1 ''largo'' 100 110 (1 / 2), operacion 2 ''corto'' 0 110 (1 / 2)] \<rparr>"

text \<open>A sheet with the mandatory columns only.\<close>

definition hoja_sin_slippage :: dataframe where
  "hoja_sin_slippage = \<lparr> columnas = [], filas = [operacion 1 ''largo'' 100 110 (1 / 2)] \<rparr>"

text \<open>Two losing trades in a row.\<close>

definition hoja_dos_perdidas :: dataframe where
  "hoja_dos_perdidas =
     \<lparr> columnas = columnas_slippage,
       filas = [operacion 1 ''largo'' 100 90 (1 / 2), operacion 2 ''largo'' 100 90 (1 / 2)] \<rparr>"

text \<open>A control column that holds two booleans and the number 2.\<close>

definition hoja_control_numerico :: dataframe where
  "hoja_control_numerico =
     \<lparr> columnas = ''regla_riesgo_ok'' # columnas_slippage,
       filas = [(operacion 1 ''largo'' 100 110 (1 / 2))
                  \<lparr> control := (\<lambda>c. if c = ''regla_riesgo_ok'' then Booleano True else Vacio) \<rparr>,
                (operacion 2 ''largo'' 100 110 (1 / 2))
                  \<lparr> control := (\<lambda>c. if c = ''regla_riesgo_ok'' then Booleano False else Vacio) \<rparr>,
                (operacion 3 ''largo'' 100 110 (1 / 2))
                  \<lparr> control := (\<lambda>c. if c = ''regla_riesgo_ok'' then Num 2 else Vacio) \<rparr>] \<rparr>"

text \<open>
  Three trades at probability one half, two of them losing, with both slippage figures
  on the first and the last, a risk rule followed once, and a blank cell in the column
  \<^verbatim>\<open>proceso_seguido\<close>, which the sheet lists before \<^verbatim>\<open>regla_riesgo_ok\<close>.
\<close>

definition hoja_tres :: dataframe where
  "hoja_tres =
     \<lparr> columnas = [''proceso_seguido'', ''regla_riesgo_ok''] @ columnas_slippage,
       filas = [(operacion 1 ''Largo'' 100 90 (1 / 2))
                  \<lparr> slippage_estimado_pct := Fin (1 / 10), slippage_real_pct := Fin (3 / 10),
                    control := (\<lambda>c. if c = ''regla_riesgo_ok'' then Booleano True
                                      else if c = ''proceso_seguido'' then Booleano True else Vacio) \<rparr>,
                (operacion 2 ''corto'' 100 110 (1 / 2))
                  \<lparr> slippage_real_pct := Fin (1 / 5),
                    control := (\<lambda>c. if c = ''regla_riesgo_ok'' then Booleano False
                                      else if c = ''proceso_seguido'' then Booleano True else Vacio) \<rparr>,
                (operacion 3 ''LARGO'' 100 105 (1 / 2))
                  \<lparr> slippage_estimado_pct := Fin (1 / 5), slippage_real_pct := Fin (1 / 10),
                    control := (\<lambda>c. if c = ''regla_riesgo_ok'' then Booleano False else Vacio) \<rparr>] \<rparr>"


section \<open>Auxiliary facts\<close>

lemmas hojas = operacion_def columnas_slippage_def

lemmas retorno_defs = retorno_realizado_def calcular_retorno_def lower_def lower_char_def

lemmas equity_defs = serie_equity_def sort_values_def List.map_filter_simps tamanios_def
  df_get_tamanio_def cumsum_def

lemmas dd_defs = dd_def peak_def cummax_def






subsection \<open>Returns\<close>

lemma calcular_retorno_error: "calcular_retorno f = Inl e \<Longrightarrow> e = ZeroDivisionError"
  by (cases "precio_entrada f"; cases "precio_salida f")
     (auto simp: calcular_retorno_def split: if_splits)

lemma apply_filas_error:
  "apply_filas calcular_retorno fs = Inl e \<Longrightarrow> e = ZeroDivisionError"
  by (induction fs arbitrary: e) (auto split: sum.splits dest: calcular_retorno_error)

lemma apply_filas_falla:
  "f \<in> set fs \<Longrightarrow> g f = Inl e \<Longrightarrow> \<exists>e'. apply_filas g fs = Inl e'"
  by (induction fs) (auto split: sum.splits)

lemma calcular_retorno_cero: "precio_entrada f = Fin 0 \<Longrightarrow> calcular_retorno f = Inl ZeroDivisionError"
  by (simp add: calcular_retorno_def)

text \<open>
  Claim C4. A trade whose entry price is 0 makes the return computation fail: the division
  raises \<^verbatim>\<open>ZeroDivisionError\<close>, the error that the script has for a record with an
  unusable number (the data error of the specification), and no value, infinite or other,
  is returned. The error leaves \<^verbatim>\<open>df.apply\<close> and ends the run, whichever row holds
  the trade.
\<close>

theorem precio_entrada_cero:
  assumes "precio_entrada f = Fin 0"
  shows "calcular_retorno f = Inl ZeroDivisionError \<and>
         (f \<in> set (filas df) \<longrightarrow>
            retorno_realizado df = Inl ZeroDivisionError \<and> dashboard df = Inl ZeroDivisionError)"
proof -
  have c: "calcular_retorno f = Inl ZeroDivisionError"
    using assms by (rule calcular_retorno_cero)
  have "retorno_realizado df = Inl ZeroDivisionError" if mem: "f \<in> set (filas df)"
  proof -
    obtain e' where "apply_filas calcular_retorno (filas df) = Inl e'"
      using apply_filas_falla [of f "filas df" calcular_retorno ZeroDivisionError] mem c by blast
    then show ?thesis
      using apply_filas_error by (simp add: retorno_realizado_def)
  qed
  then show ?thesis using c by (simp add: dashboard_def)
qed

theorem precio_entrada_cero_witness:
  "precio_entrada (operacion 2 ''corto'' 0 110 (1 / 2)) = Fin 0 \<and>
   operacion 2 ''corto'' 0 110 (1 / 2) \<in> set (filas hoja_entrada_cero) \<and>
   calcular_retorno (operacion 2 ''corto'' 0 110 (1 / 2)) = Inl ZeroDivisionError \<and>
   retorno_realizado hoja_entrada_cero = Inl ZeroDivisionError \<and>
   dashboard hoja_entrada_cero = Inl ZeroDivisionError"
proof -
  have h: "precio_entrada (operacion 2 ''corto'' 0 110 (1 / 2)) = Fin 0"
    by (simp add: operacion_def)
  have m: "operacion 2 ''corto'' 0 110 (1 / 2) \<in> set (filas hoja_entrada_cero)"
    by (simp add: hoja_entrada_cero_def)
  show ?thesis
    using precio_entrada_cero [OF h, of hoja_entrada_cero] h m by simp
qed

text \<open>
  Claim C5. For a trade with a positive entry price the return is
  \<open>(exit - entry) / entry\<close> when the side, lower-cased, is the long value \<^verbatim>\<open>largo\<close>, and
  \<open>(entry - exit) / entry\<close> for every other side; a blank exit price gives NaN either
  way. The result flag of a trade is true exactly when its return is a number above 0, so
  a return of exactly zero counts as a loss.
\<close>

theorem calcular_retorno_formula:
  assumes "precio_entrada f = Fin e" and "0 < e"
  shows "calcular_retorno f =
           Inr (case precio_salida f of
                  Fin s \<Rightarrow> Fin (if lower (lado f) = lower ''largo'' then (s - e) / e else (e - s) / e)
                | NaN \<Rightarrow> NaN) \<and>
         resultado rs = map (\<lambda>r. case r of Fin a \<Rightarrow> 0 < a | NaN \<Rightarrow> False) rs"
proof -
  have l: "lower ''largo'' = ''largo''"
    by (simp add: lower_def lower_char_def)
  have r: "fl_gt r 0 = (case r of Fin a \<Rightarrow> 0 < a | NaN \<Rightarrow> False)" for r
    by (cases r) simp_all
  show ?thesis
    using assms by (cases "precio_salida f") (simp_all add: calcular_retorno_def l resultado_def r)
qed

theorem calcular_retorno_formula_witness:
  "precio_entrada (operacion 1 ''LARGO'' 100 110 (1 / 2)) = Fin 100 \<and> (0::real) < 100 \<and>
   calcular_retorno (operacion 1 ''LARGO'' 100 110 (1 / 2)) = Inr (Fin (1 / 10)) \<and>
   calcular_retorno (operacion 1 ''corto'' 100 90 (1 / 2)) = Inr (Fin (1 / 10)) \<and>
   resultado [Fin (1 / 10), Fin 0, NaN] = [True, False, False]"
proof -
  have h: "precio_entrada (operacion 1 l 100 s (1 / 2)) = Fin 100" for l s
    by (simp add: operacion_def)
  have p: "(0::real) < 100" by simp
  show ?thesis
    using calcular_retorno_formula [OF h p, of "''LARGO''" 110 "[Fin (1 / 10), Fin 0, NaN]"]
      calcular_retorno_formula [OF h p, of "''corto''" 90 "[]"] h
    by (simp add: operacion_def lower_def lower_char_def)
qed

subsection \<open>Calibration\<close>





subsection \<open>Alerts\<close>













lemmas adher_defs = adher_def cols_bool_def reglas_def mean_celdas_def

lemmas slip_defs = slip_vals_def slip_df_def









subsection \<open>Summary\<close>










subsection \<open>Runs on a sheet without rows\<close>








subsection \<open>Adherence\<close>

lemma valores_celdas_sin_texto:
  "\<forall>c \<in> set cs. \<not> es_texto c \<Longrightarrow>
   valores_celdas cs = Inr (map numero (filter (\<lambda>c. c \<noteq> Vacio) cs))"
proof (induction cs)
  case Nil
  then show ?case by simp
next
  case (Cons c cs)
  then show ?case by (cases c) auto
qed

lemma adher_cols_sin_texto:
  "\<forall>c \<in> set cs. \<forall>f \<in> set (filas df). \<not> es_texto (control f c) \<Longrightarrow>
   adher_cols df cs =
     Inr (map (\<lambda>c. (c, media (map numero
                 (filter (\<lambda>x. x \<noteq> Vacio) (map (\<lambda>f. control f c) (filas df)))))) cs)"
proof (induction cs)
  case Nil
  then show ?case by simp
next
  case (Cons c cs)
  have "\<forall>x \<in> set (map (\<lambda>f. control f c) (filas df)). \<not> es_texto x"
    using Cons.prems by auto
  then have "valores_celdas (map (\<lambda>f. control f c) (filas df)) =
     Inr (map numero (filter (\<lambda>x. x \<noteq> Vacio) (map (\<lambda>f. control f c) (filas df))))"
    by (rule valores_celdas_sin_texto)
  moreover have "adher_cols df cs =
     Inr (map (\<lambda>c. (c, media (map numero
                 (filter (\<lambda>x. x \<noteq> Vacio) (map (\<lambda>f. control f c) (filas df)))))) cs)"
    using Cons by auto
  ultimately show ?case
    by (simp add: mean_celdas_def)
qed

text \<open>
  Claim C10, as the script has it. The adherence table lists the recognised control
  columns that the sheet has, in the order of their declaration, each with the mean of its
  cells that are not blank, a boolean counting as 1 or 0 and a number as itself: blank
  cells are left out of the mean, numbers that are not booleans are not. Columns of the
  recognised set that the sheet lacks do not appear. (Stated for control columns without
  text cells.)
\<close>

theorem adher_valor:
  assumes "\<forall>c \<in> set (cols_bool df). \<forall>f \<in> set (filas df). \<not> es_texto (control f c)"
  shows "adher df =
           Inr (map (\<lambda>c. (c, let vs = map numero (filter (\<lambda>x. x \<noteq> Vacio)
                                                (map (\<lambda>f. control f c) (filas df)))
                              in if vs = [] then NaN else Fin (sum_list vs / real (length vs))))
                  (filter (\<lambda>c. c \<in> set (columnas df)) reglas))"
  using adher_cols_sin_texto [OF assms]
  by (simp add: adher_def media_def Let_def cols_bool_def)

theorem adher_valor_witness:
  "cols_bool hoja_tres = [''regla_riesgo_ok'', ''proceso_seguido''] \<and>
   map (\<lambda>f. control f ''regla_riesgo_ok'') (filas hoja_tres) =
     [Booleano True, Booleano False, Booleano False] \<and>
   map (\<lambda>f. control f ''proceso_seguido'') (filas hoja_tres) =
     [Booleano True, Booleano True, Vacio] \<and>
   adher hoja_tres = Inr [(''regla_riesgo_ok'', Fin (1 / 3)), (''proceso_seguido'', Fin 1)]"
proof -
  have h: "\<forall>c \<in> set (cols_bool hoja_tres). \<forall>f \<in> set (filas hoja_tres). \<not> es_texto (control f c)"
    by (simp add: hoja_tres_def hojas cols_bool_def reglas_def)
  show ?thesis
    using adher_valor [OF h]
    by (simp add: hoja_tres_def hojas cols_bool_def reglas_def)
qed

text \<open>
  Claim C10 as stated fails on a control column that holds true, false and the number 2:
  the compliance is \<open>(1 + 0 + 2) / 3 = 1\<close>, while the mean over the boolean cells alone
  is \<open>1 / 2\<close>.
\<close>

theorem adher_control_numerico:
  "adher hoja_control_numerico = Inr [(''regla_riesgo_ok'', Fin 1)] \<and>
   media (booleanos (map (\<lambda>f. control f ''regla_riesgo_ok'') (filas hoja_control_numerico)))
     = Fin (1 / 2)"
  by (simp add: hoja_control_numerico_def hojas adher_defs media_def)

subsection \<open>Runs on the sample sheets\<close>

text \<open>
  Claim C1 on a sheet whose two trades are listed with the later exit first. The returns
  are \<open>0.10\<close> for the trade that exits on day 2 and \<open>-0.05\<close> for the one that exits on
  day 1. The equity series pairs the sorted dates with the running sums taken in the order
  of the sheet: day 1 carries \<open>0.10\<close>, the return of the trade that exits on day 2, where
  ordering the trades by exit date first would give \<open>-0.05\<close>.
\<close>

theorem serie_equity_hoja_desordenada:
  "retorno_realizado hoja_desordenada = Inr [Fin (1 / 10), Fin (- (1 / 20))] \<and>
   map fecha_salida (filas hoja_desordenada) = [Some 2, Some 1] \<and>
   serie_equity hoja_desordenada [Fin (1 / 10), Fin (- (1 / 20))] =
     [(Some 1, Fin (1 / 10)), (Some 2, Fin (1 / 20))]"
  by (simp add: hoja_desordenada_def hojas retorno_defs equity_defs)

text \<open>
  Claim C8 on a sheet that has the mandatory columns only: \<^verbatim>\<open>dropna\<close> raises
  \<^verbatim>\<open>KeyError\<close> for the two slippage columns, which ends the run, where the claim has an
  empty output and no error.
\<close>

theorem slip_vals_hoja_sin_slippage:
  "slip_vals hoja_sin_slippage = Inl (KeyError [''slippage_estimado_pct'', ''slippage_real_pct'']) \<and>
   dashboard hoja_sin_slippage = Inl (KeyError [''slippage_estimado_pct'', ''slippage_real_pct''])"
  by (simp add: hoja_sin_slippage_def hojas dashboard_def retorno_defs adher_defs slip_defs)

text \<open>
  Claim C9 on a sheet with two losing trades in a row. The equity is \<open>-0.1\<close> and then
  \<open>-0.2\<close>, its running maximum stays at \<open>-0.1\<close>, and the drawdown of the second point is
  \<open>(-0.2 - (-0.1)) / (-0.1) = 1\<close>: a defined drawdown above 0.
\<close>

theorem dd_hoja_dos_perdidas:
  "retorno_realizado hoja_dos_perdidas = Inr [Fin (- (1 / 10)), Fin (- (1 / 10))] \<and>
   serie_equity hoja_dos_perdidas [Fin (- (1 / 10)), Fin (- (1 / 10))] =
     [(Some 1, Fin (- (1 / 10))), (Some 2, Fin (- (1 / 5)))] \<and>
   peak [(Some 1, Fin (- (1 / 10))), (Some 2, Fin (- (1 / 5)))] =
     [(Some 1, Fin (- (1 / 10))), (Some 2, Fin (- (1 / 10)))] \<and>
   dd [(Some 1, Fin (- (1 / 10))), (Some 2, Fin (- (1 / 5)))] =
     [(Some 1, Finite 0), (Some 2, Finite 1)]"
  by (simp add: hoja_dos_perdidas_def hojas retorno_defs equity_defs dd_defs Let_def)

end
